theory Spec2Isabelle
  imports Main
begin

section \<open>The MQTT alarm control panel (mqtt/alarm_control_panel.py)\<close>

subsection \<open>Constants\<close>

text \<open>
  Modelled from the spec: the ten alarm state constants are imported from
  \<^verbatim>\<open>homeassistant.const\<close>, which is not among the sources. The spec names
  the states disarmed, armed-home, armed-away, armed-night, armed-vacation,
  armed-custom-bypass, pending, arming, disarming and triggered; the strings below are
  the host's identifiers for them. The general theorems below hold whatever the
  spelling of a state string; only the examples evaluate it.
\<close>

definition STATE_ALARM_DISARMED :: string where
  "STATE_ALARM_DISARMED = ''disarmed''"

definition STATE_ALARM_ARMED_HOME :: string where
  "STATE_ALARM_ARMED_HOME = ''armed_home''"

definition STATE_ALARM_ARMED_AWAY :: string where
  "STATE_ALARM_ARMED_AWAY = ''armed_away''"

definition STATE_ALARM_ARMED_NIGHT :: string where
  "STATE_ALARM_ARMED_NIGHT = ''armed_night''"

definition STATE_ALARM_ARMED_VACATION :: string where
  "STATE_ALARM_ARMED_VACATION = ''armed_vacation''"

definition STATE_ALARM_ARMED_CUSTOM_BYPASS :: string where
  "STATE_ALARM_ARMED_CUSTOM_BYPASS = ''armed_custom_bypass''"

definition STATE_ALARM_PENDING :: string where
  "STATE_ALARM_PENDING = ''pending''"

definition STATE_ALARM_ARMING :: string where
  "STATE_ALARM_ARMING = ''arming''"

definition STATE_ALARM_DISARMING :: string where
  "STATE_ALARM_DISARMING = ''disarming''"

definition STATE_ALARM_TRIGGERED :: string where
  "STATE_ALARM_TRIGGERED = ''triggered''"

text \<open>The two sentinel codes (lines 85-86).\<close>

definition REMOTE_CODE :: string where
  "REMOTE_CODE = ''REMOTE_CODE''"

definition REMOTE_CODE_TEXT :: string where
  "REMOTE_CODE_TEXT = ''REMOTE_CODE_TEXT''"

text \<open>
  Modelled from the spec: \<^verbatim>\<open>alarm.CodeFormat\<close> is declared in the host's
  alarm_control_panel component, which is not among the sources; the spec names its two
  members NUMBER and TEXT.
\<close>

datatype CodeFormat = NUMBER | TEXT

subsection \<open>Python values and truthiness\<close>

text \<open>
  \<^verbatim>\<open>_validate_code\<close> returns the value of an \<^verbatim>\<open>or\<close>/\<^verbatim>\<open>and\<close>
  chain, which in Python is one of the operands and not a boolean: the caller tests its
  truthiness. The values that occur are \<^verbatim>\<open>None\<close>, booleans and strings.
\<close>

datatype py_value = PyNone | PyBool bool | PyStr string

fun truthy :: "py_value \<Rightarrow> bool" where
  "truthy PyNone = False"
| "truthy (PyBool b) = b"
| "truthy (PyStr s) = (s \<noteq> [])"

definition py_or :: "py_value \<Rightarrow> py_value \<Rightarrow> py_value" where
  "py_or a b = (if truthy a then a else b)"

definition py_and :: "py_value \<Rightarrow> py_value \<Rightarrow> py_value" where
  "py_and a b = (if truthy a then b else a)"

text \<open>A caller-supplied code is \<^verbatim>\<open>None\<close> (the default) or a string.\<close>

fun py_code :: "string option \<Rightarrow> py_value" where
  "py_code None = PyNone"
| "py_code (Some s) = PyStr s"

subsection \<open>Configuration and entity\<close>

text \<open>
  The validated configuration (\<^verbatim>\<open>PLATFORM_SCHEMA_MODERN\<close>, lines 88-114): every
  key read by subscript has a default or is required, so it is a total field; the code
  is optional without a default, so \<^verbatim>\<open>self._config.get(CONF_CODE)\<close> may be
  \<^verbatim>\<open>None\<close>. The two templates are held by the entity in rendered form, see
  below.
\<close>

record alarm_config =
  CONF_CODE :: "string option"
  CONF_CODE_ARM_REQUIRED :: bool
  CONF_CODE_DISARM_REQUIRED :: bool
  CONF_CODE_TRIGGER_REQUIRED :: bool
  CONF_COMMAND_TOPIC :: string
  CONF_PAYLOAD_ARM_AWAY :: string
  CONF_PAYLOAD_ARM_HOME :: string
  CONF_PAYLOAD_ARM_NIGHT :: string
  CONF_PAYLOAD_ARM_VACATION :: string
  CONF_PAYLOAD_ARM_CUSTOM_BYPASS :: string
  CONF_PAYLOAD_DISARM :: string
  CONF_PAYLOAD_TRIGGER :: string
  CONF_QOS :: nat
  CONF_RETAIN :: bool
  CONF_ENCODING :: string
  CONF_STATE_TOPIC :: string

text \<open>The template variables \<^verbatim>\<open>{"action": action, "code": code}\<close> of line 346.\<close>

datatype variables = Variables string "string option"

text \<open>
  What the entity does to its surroundings, in order: a call of
  \<^verbatim>\<open>_LOGGER.warning\<close> with the formatted message, a call of
  \<^verbatim>\<open>self.async_publish(topic, payload, qos, retain, encoding)\<close>, a call of
  \<^verbatim>\<open>self.async_write_ha_state()\<close>.
\<close>

datatype alarm_effect =
    LogWarning string
  | AsyncPublish string string nat bool string
  | AsyncWriteHaState

text \<open>
  The entity: its configuration, the two render functions that
  \<^verbatim>\<open>_setup_from_config\<close> stores (the templating engine is the host's, so they
  are parameters), the field \<^verbatim>\<open>self._state\<close>, and the trace of effects so far.
\<close>

record MqttAlarm =
  config :: alarm_config
  value_template :: "string \<Rightarrow> string"
  command_template :: "variables \<Rightarrow> string"
  state_field :: "string option"
  effects :: "alarm_effect list"

text \<open>\<^verbatim>\<open>__init__\<close> (lines 173-177): the state starts unset.\<close>

definition MqttAlarm_init ::
    "alarm_config \<Rightarrow> (string \<Rightarrow> string) \<Rightarrow> (variables \<Rightarrow> string) \<Rightarrow> MqttAlarm" where
  "MqttAlarm_init cfg vt ct =
     \<lparr>config = cfg, value_template = vt, command_template = ct,
      state_field = None, effects = []\<rparr>"

subsection \<open>Inbound messages\<close>

text \<open>\<^verbatim>\<open>message_received\<close> (lines 196-216), applied to \<^verbatim>\<open>msg.payload\<close>.\<close>

definition message_received :: "MqttAlarm \<Rightarrow> string \<Rightarrow> MqttAlarm" where
  "message_received self msg_payload =
     (let payload = value_template self msg_payload in
      if payload \<notin> set [
           STATE_ALARM_DISARMED,
           STATE_ALARM_ARMED_HOME,
           STATE_ALARM_ARMED_AWAY,
           STATE_ALARM_ARMED_NIGHT,
           STATE_ALARM_ARMED_VACATION,
           STATE_ALARM_ARMED_CUSTOM_BYPASS,
           STATE_ALARM_PENDING,
           STATE_ALARM_ARMING,
           STATE_ALARM_DISARMING,
           STATE_ALARM_TRIGGERED]
      then self\<lparr>effects := effects self @
             [LogWarning (''Received unexpected payload: '' @ msg_payload)]\<rparr>
      else self\<lparr>state_field := Some payload,
                effects := effects self @ [AsyncWriteHaState]\<rparr>)"

text \<open>The \<^verbatim>\<open>state\<close> property (lines 235-238).\<close>

definition MqttAlarm_state :: "MqttAlarm \<Rightarrow> string option" where
  "MqttAlarm_state self = state_field self"

text \<open>The ten recognized state strings, in the order of the tuple of lines 202-211.\<close>

definition recognized_states :: "string list" where
  "recognized_states =
     [STATE_ALARM_DISARMED, STATE_ALARM_ARMED_HOME, STATE_ALARM_ARMED_AWAY,
      STATE_ALARM_ARMED_NIGHT, STATE_ALARM_ARMED_VACATION,
      STATE_ALARM_ARMED_CUSTOM_BYPASS, STATE_ALARM_PENDING, STATE_ALARM_ARMING,
      STATE_ALARM_DISARMING, STATE_ALARM_TRIGGERED]"

subsection \<open>Code format\<close>

text \<open>
  A \<open>string\<close> is a list of bytes: a Python \<^verbatim>\<open>str\<close> is held as its UTF-8
  encoding, which has the same equality and the same empty string. The pattern
  \<^verbatim>\<open>\d\<close> of a \<^verbatim>\<open>str\<close> pattern works on code points, so the bytes are
  decoded first. A byte list that is not the encoding of a \<^verbatim>\<open>str\<close> (a stray
  continuation byte, a truncated sequence) has no code points.
\<close>

definition continuation :: "nat \<Rightarrow> bool" where
  "continuation b = (0x80 \<le> b \<and> b < 0xC0)"

fun utf8_decode :: "nat list \<Rightarrow> nat list option" where
  "utf8_decode [] = Some []"
| "utf8_decode (b # bs) =
     (if b < 0x80 then map_option ((#) b) (utf8_decode bs)
      else if 0xC2 \<le> b \<and> b < 0xE0 then
        (case bs of
           c1 # rest \<Rightarrow>
             if continuation c1
             then map_option ((#) ((b - 0xC0) * 0x40 + (c1 - 0x80))) (utf8_decode rest)
             else None
         | _ \<Rightarrow> None)
      else if 0xE0 \<le> b \<and> b < 0xF0 then
        (case bs of
           c1 # c2 # rest \<Rightarrow>
             if continuation c1 \<and> continuation c2
             then map_option
                    ((#) ((b - 0xE0) * 0x1000 + (c1 - 0x80) * 0x40 + (c2 - 0x80)))
                    (utf8_decode rest)
             else None
         | _ \<Rightarrow> None)
      else if 0xF0 \<le> b \<and> b < 0xF5 then
        (case bs of
           c1 # c2 # c3 # rest \<Rightarrow>
             if continuation c1 \<and> continuation c2 \<and> continuation c3
             then map_option
                    ((#) ((b - 0xF0) * 0x40000 + (c1 - 0x80) * 0x1000
                          + (c2 - 0x80) * 0x40 + (c3 - 0x80)))
                    (utf8_decode rest)
             else None
         | _ \<Rightarrow> None)
      else None)"

definition code_points :: "string \<Rightarrow> nat list option" where
  "code_points s = utf8_decode (map of_char s)"

text \<open>
  \<^verbatim>\<open>re.search("^\\d+$", code)\<close> as a truth value. Without the MULTILINE flag
  \<^verbatim>\<open>^\<close> matches at the start of the string only, \<^verbatim>\<open>\d+\<close> takes the
  longest run of decimal digits, and \<^verbatim>\<open>$\<close> matches at the end of the string or
  just before a newline (code point 10) that ends the string. The pattern carries no
  \<^verbatim>\<open>re.ASCII\<close> flag, so \<^verbatim>\<open>\d\<close> is every decimal digit (category Nd) of
  the Unicode database of the running interpreter. That database is not part of the
  sources and grows from one version to the next, so the class is the parameter
  \<open>decimal\<close>, a predicate on code points.
\<close>

definition re_search_digits :: "(nat \<Rightarrow> bool) \<Rightarrow> string \<Rightarrow> bool" where
  "re_search_digits decimal s =
     (case code_points s of
        None \<Rightarrow> False
      | Some cs \<Rightarrow>
          (let ds = takeWhile decimal cs; rest = dropWhile decimal cs
           in ds \<noteq> [] \<and> (rest = [] \<or> rest = [10])))"

text \<open>
  What every version of the database agrees on: below 128 the decimal digits are the
  ten ASCII digits, code points 48 to 57.
\<close>

definition ascii_decimal :: "(nat \<Rightarrow> bool) \<Rightarrow> bool" where
  "ascii_decimal decimal = (\<forall>c<128. decimal c = (48 \<le> c \<and> c \<le> 57))"

text \<open>
  One such class, for the examples: category Nd of Unicode 13.0 (the database of
  CPython 3.9 and 3.10), 60 runs of ten digits, each given by its first code point, and
  the fifty mathematical digits.
\<close>

definition unicode_13_zeros :: "nat list" where
  "unicode_13_zeros =
     [0x30, 0x660, 0x6F0, 0x7C0, 0x966, 0x9E6, 0xA66, 0xAE6, 0xB66, 0xBE6,
      0xC66, 0xCE6, 0xD66, 0xDE6, 0xE50, 0xED0, 0xF20, 0x1040, 0x1090, 0x17E0,
      0x1810, 0x1946, 0x19D0, 0x1A80, 0x1A90, 0x1B50, 0x1BB0, 0x1C40, 0x1C50, 0xA620,
      0xA8D0, 0xA900, 0xA9D0, 0xA9F0, 0xAA50, 0xABF0, 0xFF10, 0x104A0, 0x10D30, 0x11066,
      0x110F0, 0x11136, 0x111D0, 0x112F0, 0x11450, 0x114D0, 0x11650, 0x116C0, 0x11730,
      0x118E0, 0x11950, 0x11C50, 0x11D50, 0x11DA0, 0x16A60, 0x16B50, 0x1E140, 0x1E2F0,
      0x1E950, 0x1FBF0]"

definition unicode_13_decimal :: "nat \<Rightarrow> bool" where
  "unicode_13_decimal c =
     (list_ex (\<lambda>zero. zero \<le> c \<and> c < zero + 10) unicode_13_zeros
      \<or> (0x1D7CE \<le> c \<and> c \<le> 0x1D7FF))"

text \<open>
  The \<^verbatim>\<open>code_format\<close> property (lines 252-259). A configured code is a string
  (\<^verbatim>\<open>cv.string\<close>), so the \<^verbatim>\<open>isinstance\<close> test holds.
\<close>

definition code_format :: "(nat \<Rightarrow> bool) \<Rightarrow> MqttAlarm \<Rightarrow> CodeFormat option" where
  "code_format decimal self =
     (case CONF_CODE (config self) of
        None \<Rightarrow> None
      | Some code \<Rightarrow>
          if code = REMOTE_CODE \<or> re_search_digits decimal code then Some NUMBER
          else Some TEXT)"

text \<open>The \<^verbatim>\<open>code_arm_required\<close> property (lines 261-265).\<close>

definition code_arm_required :: "MqttAlarm \<Rightarrow> bool" where
  "code_arm_required self = CONF_CODE_ARM_REQUIRED (config self)"

subsection \<open>Commands\<close>

text \<open>\<^verbatim>\<open>_publish\<close> (lines 344-354).\<close>

definition publish :: "MqttAlarm \<Rightarrow> string option \<Rightarrow> string \<Rightarrow> MqttAlarm" where
  "publish self code action =
     (let variables = Variables action code;
          payload = command_template self variables
      in self\<lparr>effects := effects self @
           [AsyncPublish (CONF_COMMAND_TOPIC (config self)) payload
              (CONF_QOS (config self)) (CONF_RETAIN (config self))
              (CONF_ENCODING (config self))]\<rparr>)"

text \<open>
  \<^verbatim>\<open>_validate_code\<close> (lines 356-367): the value of \<^verbatim>\<open>check\<close> and the entity
  after the possible warning.
\<close>

definition validate_code ::
    "MqttAlarm \<Rightarrow> string option \<Rightarrow> string \<Rightarrow> py_value \<times> MqttAlarm" where
  "validate_code self code state =
     (let conf_code = CONF_CODE (config self);
          check =
            py_or (py_or (py_or
              (PyBool (conf_code = None))
              (PyBool (code = conf_code)))
              (py_and (PyBool (conf_code = Some REMOTE_CODE)) (py_code code)))
              (py_and (PyBool (conf_code = Some REMOTE_CODE_TEXT)) (py_code code))
      in if \<not> truthy check
         then (check, self\<lparr>effects := effects self @
                 [LogWarning (''Wrong code entered for '' @ state)]\<rparr>)
         else (check, self))"

text \<open>
  The seven action handlers (lines 267-342). \<^verbatim>\<open>and\<close> short-circuits: the code
  is validated, and the warning possibly logged, only when the flag is set.
\<close>

definition async_alarm_disarm :: "MqttAlarm \<Rightarrow> string option \<Rightarrow> MqttAlarm" where
  "async_alarm_disarm self code =
     (let code_required = CONF_CODE_DISARM_REQUIRED (config self);
          payload = CONF_PAYLOAD_DISARM (config self)
      in if code_required then
           (case validate_code self code ''disarming'' of
              (check, self') \<Rightarrow> if \<not> truthy check then self' else publish self' code payload)
         else publish self code payload)"

definition async_alarm_arm_home :: "MqttAlarm \<Rightarrow> string option \<Rightarrow> MqttAlarm" where
  "async_alarm_arm_home self code =
     (let code_required = CONF_CODE_ARM_REQUIRED (config self);
          action = CONF_PAYLOAD_ARM_HOME (config self)
      in if code_required then
           (case validate_code self code ''arming home'' of
              (check, self') \<Rightarrow> if \<not> truthy check then self' else publish self' code action)
         else publish self code action)"

definition async_alarm_arm_away :: "MqttAlarm \<Rightarrow> string option \<Rightarrow> MqttAlarm" where
  "async_alarm_arm_away self code =
     (let code_required = CONF_CODE_ARM_REQUIRED (config self);
          action = CONF_PAYLOAD_ARM_AWAY (config self)
      in if code_required then
           (case validate_code self code ''arming away'' of
              (check, self') \<Rightarrow> if \<not> truthy check then self' else publish self' code action)
         else publish self code action)"

definition async_alarm_arm_night :: "MqttAlarm \<Rightarrow> string option \<Rightarrow> MqttAlarm" where
  "async_alarm_arm_night self code =
     (let code_required = CONF_CODE_ARM_REQUIRED (config self);
          action = CONF_PAYLOAD_ARM_NIGHT (config self)
      in if code_required then
           (case validate_code self code ''arming night'' of
              (check, self') \<Rightarrow> if \<not> truthy check then self' else publish self' code action)
         else publish self code action)"

definition async_alarm_arm_vacation :: "MqttAlarm \<Rightarrow> string option \<Rightarrow> MqttAlarm" where
  "async_alarm_arm_vacation self code =
     (let code_required = CONF_CODE_ARM_REQUIRED (config self);
          action = CONF_PAYLOAD_ARM_VACATION (config self)
      in if code_required then
           (case validate_code self code ''arming vacation'' of
              (check, self') \<Rightarrow> if \<not> truthy check then self' else publish self' code action)
         else publish self code action)"

definition async_alarm_arm_custom_bypass :: "MqttAlarm \<Rightarrow> string option \<Rightarrow> MqttAlarm" where
  "async_alarm_arm_custom_bypass self code =
     (let code_required = CONF_CODE_ARM_REQUIRED (config self);
          action = CONF_PAYLOAD_ARM_CUSTOM_BYPASS (config self)
      in if code_required then
           (case validate_code self code ''arming custom bypass'' of
              (check, self') \<Rightarrow> if \<not> truthy check then self' else publish self' code action)
         else publish self code action)"

definition async_alarm_trigger :: "MqttAlarm \<Rightarrow> string option \<Rightarrow> MqttAlarm" where
  "async_alarm_trigger self code =
     (let code_required = CONF_CODE_TRIGGER_REQUIRED (config self);
          action = CONF_PAYLOAD_TRIGGER (config self)
      in if code_required then
           (case validate_code self code ''triggering'' of
              (check, self') \<Rightarrow> if \<not> truthy check then self' else publish self' code action)
         else publish self code action)"

text \<open>
  The host calls the handlers and delivers the messages one at a time (the spec's
  single-threaded event loop): an event is one inbound message or one action call with
  the caller's code, and a run applies a sequence of events in order.
\<close>

datatype alarm_event =
    MessageReceived string
  | AlarmDisarm "string option"
  | AlarmArmHome "string option"
  | AlarmArmAway "string option"
  | AlarmArmNight "string option"
  | AlarmArmVacation "string option"
  | AlarmArmCustomBypass "string option"
  | AlarmTrigger "string option"

fun step :: "MqttAlarm \<Rightarrow> alarm_event \<Rightarrow> MqttAlarm" where
  "step self (MessageReceived msg_payload) = message_received self msg_payload"
| "step self (AlarmDisarm code) = async_alarm_disarm self code"
| "step self (AlarmArmHome code) = async_alarm_arm_home self code"
| "step self (AlarmArmAway code) = async_alarm_arm_away self code"
| "step self (AlarmArmNight code) = async_alarm_arm_night self code"
| "step self (AlarmArmVacation code) = async_alarm_arm_vacation self code"
| "step self (AlarmArmCustomBypass code) = async_alarm_arm_custom_bypass self code"
| "step self (AlarmTrigger code) = async_alarm_trigger self code"

definition run :: "MqttAlarm \<Rightarrow> alarm_event list \<Rightarrow> MqttAlarm" where
  "run self evs = foldl step self evs"

subsection \<open>The code validation policy in the spec's words\<close>

text \<open>
  The spec's policy, to be compared with \<^verbatim>\<open>_validate_code\<close>: a code is accepted
  if no code is configured, if the supplied code equals the configured one, or if the
  configured code is one of the two sentinels and the supplied code is non-empty
  (supplied and not the empty string).
\<close>

definition code_accepted :: "alarm_config \<Rightarrow> string option \<Rightarrow> bool" where
  "code_accepted cfg code =
     (CONF_CODE cfg = None
      \<or> code = CONF_CODE cfg
      \<or> (CONF_CODE cfg \<in> {Some REMOTE_CODE, Some REMOTE_CODE_TEXT}
          \<and> code \<noteq> None \<and> code \<noteq> Some []))"

section \<open>The Litter-Robot vacuum (litterrobot/vacuum.py)\<close>

subsection \<open>Constants\<close>

text \<open>
  Modelled from the spec: the state constants are imported from the host's vacuum
  component and \<^verbatim>\<open>homeassistant.const\<close>, which are not among the sources. The
  spec gives their values: "cleaning", "docked", "paused", "off" and, for the fallback,
  "error".
\<close>

definition STATE_CLEANING :: string where
  "STATE_CLEANING = ''cleaning''"

definition STATE_DOCKED :: string where
  "STATE_DOCKED = ''docked''"

definition STATE_ERROR :: string where
  "STATE_ERROR = ''error''"

definition STATE_PAUSED :: string where
  "STATE_PAUSED = ''paused''"

definition STATE_OFF :: string where
  "STATE_OFF = ''off''"

text \<open>
  \<^verbatim>\<open>LitterBoxStatus\<close> is an enum of the SDK. The nine members that the mapping
  names are constructors; every other member of the enum is \<open>UNLISTED\<close> with its name.
\<close>

datatype LitterBoxStatus =
    CLEAN_CYCLE
  | EMPTY_CYCLE
  | CLEAN_CYCLE_COMPLETE
  | CAT_SENSOR_TIMING
  | DRAWER_FULL_1
  | DRAWER_FULL_2
  | READY
  | CAT_SENSOR_INTERRUPTED
  | OFF
  | UNLISTED string

text \<open>The dictionary of lines 38-48, in its order.\<close>

definition LITTER_BOX_STATUS_STATE_MAP :: "(LitterBoxStatus \<times> string) list" where
  "LITTER_BOX_STATUS_STATE_MAP =
     [(CLEAN_CYCLE, STATE_CLEANING),
      (EMPTY_CYCLE, STATE_CLEANING),
      (CLEAN_CYCLE_COMPLETE, STATE_DOCKED),
      (CAT_SENSOR_TIMING, STATE_DOCKED),
      (DRAWER_FULL_1, STATE_DOCKED),
      (DRAWER_FULL_2, STATE_DOCKED),
      (READY, STATE_DOCKED),
      (CAT_SENSOR_INTERRUPTED, STATE_PAUSED),
      (OFF, STATE_OFF)]"

text \<open>
  Points in time and durations are integers, in microseconds (the resolution of
  \<^verbatim>\<open>datetime\<close> and \<^verbatim>\<open>timedelta\<close>, whose arithmetic is exact): a timezone-aware
  \<^verbatim>\<open>datetime\<close> is its distance from the epoch.
\<close>

definition timedelta_minutes :: "int \<Rightarrow> int" where
  "timedelta_minutes m = m * 60 * 1000000"

definition UNAVAILABLE_AFTER :: int where
  "UNAVAILABLE_AFTER = timedelta_minutes 30"

subsection \<open>Robot and entity\<close>

text \<open>The SDK's mutators that the entity calls, with their arguments.\<close>

datatype robot_action =
    SetPowerStatus bool
  | StartCleaning
  | ResetWasteDrawer
  | SetSleepMode bool "string option"
  | SetWaitTime int

text \<open>An exception, by its description.\<close>

datatype exn = Exn string

text \<open>
  The SDK's robot object: the fields that the entity reads, and for each mutator whether
  awaiting it raises, and what (the SDK and the cloud behind it decide that).
\<close>

record Robot =
  status :: LitterBoxStatus
  last_seen :: int
  is_sleeping :: bool
  raises :: "robot_action \<Rightarrow> exn option"

text \<open>
  What the entity does to its surroundings, in order: a call of
  \<^verbatim>\<open>_LOGGER.warning\<close>, an awaited call of a mutator of the robot, a call of
  \<^verbatim>\<open>self.coordinator.async_set_updated_data\<close>, a refresh of the robot's data.
\<close>

datatype vacuum_effect =
    LoggerWarning string
  | RobotCall robot_action
  | AsyncSetUpdatedData bool
  | Refresh

text \<open>
  The entity: its robot, the trace of effects so far, and
  \<^verbatim>\<open>parse_time_at_default_timezone\<close>, a method of the base class
  \<^verbatim>\<open>LitterRobotControlEntity\<close>, which is not among the sources and about which
  the spec is silent, so it is a parameter.
\<close>

record LitterRobotCleaner =
  robot :: Robot
  parse_time_at_default_timezone :: "string option \<Rightarrow> string option"
  calls :: "vacuum_effect list"

text \<open>
  A handler returns normally (\<open>Inr ()\<close>) or an exception propagates to its caller
  (\<open>Inl\<close>); either way the effects up to that point have happened.
\<close>

type_synonym outcome = "(exn + unit) \<times> LitterRobotCleaner"

text \<open>
  Modelled from the spec: \<^verbatim>\<open>perform_action_and_refresh\<close> is a method of the base
  class \<^verbatim>\<open>LitterRobotControlEntity\<close>, which is not among the sources. The spec:
  actions "invoke the corresponding SDK call and then force a data refresh", and "errors
  from the SDK call propagate unmodified (no retry, no swallow)".
\<close>

definition perform_action_and_refresh ::
    "LitterRobotCleaner \<Rightarrow> robot_action \<Rightarrow> outcome" where
  "perform_action_and_refresh self action =
     (let self' = self\<lparr>calls := calls self @ [RobotCall action]\<rparr>
      in case raises (robot self) action of
           Some e \<Rightarrow> (Inl e, self')
         | None \<Rightarrow> (Inr (), self'\<lparr>calls := calls self' @ [Refresh]\<rparr>))"

subsection \<open>Properties\<close>

text \<open>
  The \<^verbatim>\<open>available\<close> property (lines 99-102); \<open>now\<close> is the value of
  \<^verbatim>\<open>datetime.now(timezone.utc)\<close>.
\<close>

definition available :: "int \<Rightarrow> LitterRobotCleaner \<Rightarrow> bool" where
  "available now self = (last_seen (robot self) > now - UNAVAILABLE_AFTER)"

text \<open>
  The \<^verbatim>\<open>state\<close> property (lines 104-107): \<^verbatim>\<open>dict.get\<close> with the default
  \<^verbatim>\<open>STATE_ERROR\<close>.
\<close>

definition LitterRobotCleaner_state :: "LitterRobotCleaner \<Rightarrow> string" where
  "LitterRobotCleaner_state self =
     (case map_of LITTER_BOX_STATUS_STATE_MAP (status (robot self)) of
        Some s \<Rightarrow> s
      | None \<Rightarrow> STATE_ERROR)"

subsection \<open>Actions and services\<close>

text \<open>Lines 116-126.\<close>

definition async_turn_on :: "LitterRobotCleaner \<Rightarrow> outcome" where
  "async_turn_on self = perform_action_and_refresh self (SetPowerStatus True)"

definition async_turn_off :: "LitterRobotCleaner \<Rightarrow> outcome" where
  "async_turn_off self = perform_action_and_refresh self (SetPowerStatus False)"

definition async_start :: "LitterRobotCleaner \<Rightarrow> outcome" where
  "async_start self = perform_action_and_refresh self StartCleaning"

text \<open>
  The three registered entity services (lines 128-159). In
  \<^verbatim>\<open>async_reset_waste_drawer\<close> the warning comes first, then the awaited call of
  the robot (line 137); if that raises, line 138 is not reached.
\<close>

definition async_reset_waste_drawer :: "LitterRobotCleaner \<Rightarrow> outcome" where
  "async_reset_waste_drawer self =
     (let self1 = self\<lparr>calls := calls self @
            [LoggerWarning
               (''The 'litterrobot.reset_waste_drawer' service is deprecated and '' @
                ''replaced by a dedicated reset waste drawer button entity; Please '' @
                ''use that entity to reset the waste drawer instead'')]\<rparr>;
          self2 = self1\<lparr>calls := calls self1 @ [RobotCall ResetWasteDrawer]\<rparr>
      in case raises (robot self) ResetWasteDrawer of
           Some e \<Rightarrow> (Inl e, self2)
         | None \<Rightarrow> (Inr (), self2\<lparr>calls := calls self2 @ [AsyncSetUpdatedData True]\<rparr>))"

definition async_set_sleep_mode ::
    "LitterRobotCleaner \<Rightarrow> bool \<Rightarrow> string option \<Rightarrow> outcome" where
  "async_set_sleep_mode self enabled start_time =
     perform_action_and_refresh self
       (SetSleepMode enabled (parse_time_at_default_timezone self start_time))"

definition async_set_wait_time :: "LitterRobotCleaner \<Rightarrow> int \<Rightarrow> outcome" where
  "async_set_wait_time self minutes =
     (let self' = self\<lparr>calls := calls self @
            [LoggerWarning
               (''The 'litterrobot.set_wait_time' service is deprecated and '' @
                ''replaced by a dedicated set wait time select entity; Please '' @
                ''use that entity to set the wait time instead'')]\<rparr>
      in perform_action_and_refresh self' (SetWaitTime minutes))"

text \<open>Whether an effect is a logged warning.\<close>

fun is_warning :: "vacuum_effect \<Rightarrow> bool" where
  "is_warning (LoggerWarning w) = True"
| "is_warning e = False"

section \<open>Example entities\<close>

text \<open>
  An alarm panel with the schema's defaults, the code 1234, the default command template
  (which renders to the action) and no value template (the payload is passed through).
\<close>

definition demo_config :: alarm_config where
  "demo_config =
     \<lparr>CONF_CODE = Some ''1234'',
      CONF_CODE_ARM_REQUIRED = True,
      CONF_CODE_DISARM_REQUIRED = True,
      CONF_CODE_TRIGGER_REQUIRED = True,
      CONF_COMMAND_TOPIC = ''alarm/command'',
      CONF_PAYLOAD_ARM_AWAY = ''ARM_AWAY'',
      CONF_PAYLOAD_ARM_HOME = ''ARM_HOME'',
      CONF_PAYLOAD_ARM_NIGHT = ''ARM_NIGHT'',
      CONF_PAYLOAD_ARM_VACATION = ''ARM_VACATION'',
      CONF_PAYLOAD_ARM_CUSTOM_BYPASS = ''ARM_CUSTOM_BYPASS'',
      CONF_PAYLOAD_DISARM = ''DISARM'',
      CONF_PAYLOAD_TRIGGER = ''TRIGGER'',
      CONF_QOS = 0,
      CONF_RETAIN = False,
      CONF_ENCODING = ''utf-8'',
      CONF_STATE_TOPIC = ''alarm/state''\<rparr>"

fun render_action :: "variables \<Rightarrow> string" where
  "render_action (Variables action code) = action"

definition demo_alarm :: MqttAlarm where
  "demo_alarm = MqttAlarm_init demo_config (\<lambda>payload. payload) render_action"

text \<open>
  A robot that is ready and was last seen at second 1000 of the epoch, once with
  mutators that all succeed and once with a waste drawer reset and a wait time setting
  that fail.
\<close>

definition demo_cleaner :: LitterRobotCleaner where
  "demo_cleaner =
     \<lparr>robot = \<lparr>status = READY, last_seen = 1000000000, is_sleeping = False,
               raises = (\<lambda>action. None)\<rparr>,
      parse_time_at_default_timezone = (\<lambda>t. t),
      calls = []\<rparr>"

fun demo_failures :: "robot_action \<Rightarrow> exn option" where
  "demo_failures ResetWasteDrawer = Some (Exn ''LitterRobotException'')"
| "demo_failures (SetWaitTime minutes) = Some (Exn ''LitterRobotException'')"
| "demo_failures action = None"

definition failing_cleaner :: LitterRobotCleaner where
  "failing_cleaner =
     \<lparr>robot = \<lparr>status = READY, last_seen = 1000000000, is_sleeping = False,
               raises = demo_failures\<rparr>,
      parse_time_at_default_timezone = (\<lambda>t. t),
      calls = []\<rparr>"

text \<open>
  Two configured codes beyond ASCII, as their UTF-8 encodings: the Arabic-Indic digits
  one, two (code points 0x661, 0x662) and the fullwidth digits one, two (0xFF11,
  0xFF12).
\<close>

definition arabic_indic_12 :: string where
  "arabic_indic_12 = [CHR 0xD9, CHR 0xA1, CHR 0xD9, CHR 0xA2]"

definition fullwidth_12 :: string where
  "fullwidth_12 = [CHR 0xEF, CHR 0xBC, CHR 0x91, CHR 0xEF, CHR 0xBC, CHR 0x92]"

section \<open>Proofs for the alarm control panel\<close>

subsection \<open>Message handling\<close>

lemma message_received_recognized:
  assumes "value_template self msg_payload \<in> set recognized_states"
  shows "message_received self msg_payload =
           self\<lparr>state_field := Some (value_template self msg_payload),
                effects := effects self @ [AsyncWriteHaState]\<rparr>"
proof -
  have "\<not> value_template self msg_payload \<notin> set recognized_states"
    using assms by simp
  then show ?thesis
    unfolding message_received_def Let_def recognized_states_def
    by (rule if_not_P)
qed

lemma message_received_unrecognized:
  assumes "value_template self msg_payload \<notin> set recognized_states"
  shows "message_received self msg_payload =
           self\<lparr>effects := effects self @
             [LogWarning (''Received unexpected payload: '' @ msg_payload)]\<rparr>"
  using assms unfolding message_received_def Let_def recognized_states_def
  by (rule if_P)

lemma demo_alarm_fields:
  "config demo_alarm = demo_config"
  "value_template demo_alarm = (\<lambda>payload. payload)"
  "command_template demo_alarm = render_action"
  "state_field demo_alarm = None"
  "effects demo_alarm = []"
  by (simp_all add: demo_alarm_def MqttAlarm_init_def)

lemma armed_home_recognized: "''armed_home'' \<in> set recognized_states"
  by (simp add: recognized_states_def STATE_ALARM_ARMED_HOME_def)

lemma bogus_unrecognized: "''bogus'' \<notin> set recognized_states"
  by (simp add: recognized_states_def STATE_ALARM_DISARMED_def
      STATE_ALARM_ARMED_HOME_def STATE_ALARM_ARMED_AWAY_def STATE_ALARM_ARMED_NIGHT_def
      STATE_ALARM_ARMED_VACATION_def STATE_ALARM_ARMED_CUSTOM_BYPASS_def
      STATE_ALARM_PENDING_def STATE_ALARM_ARMING_def STATE_ALARM_DISARMING_def
      STATE_ALARM_TRIGGERED_def)

text \<open>
  C2. For every inbound message: if the rendered payload is one of the ten recognized
  state strings, the state field becomes exactly that string and the host is notified
  (one call of \<^verbatim>\<open>async_write_ha_state\<close>, nothing else); otherwise a warning with
  the raw payload is logged and nothing else changes, the state field included.
\<close>

theorem message_received_sets_recognized_state:
  "(value_template self msg_payload \<in> set recognized_states \<longrightarrow>
      message_received self msg_payload =
        self\<lparr>state_field := Some (value_template self msg_payload),
             effects := effects self @ [AsyncWriteHaState]\<rparr>)
   \<and> (value_template self msg_payload \<notin> set recognized_states \<longrightarrow>
      message_received self msg_payload =
        self\<lparr>effects := effects self @
          [LogWarning (''Received unexpected payload: '' @ msg_payload)]\<rparr>)"
  using message_received_recognized message_received_unrecognized by blast

theorem message_received_sets_recognized_state_witness:
  "value_template demo_alarm ''armed_home'' \<in> set recognized_states
   \<and> state_field (message_received demo_alarm ''armed_home'') = Some ''armed_home''
   \<and> effects (message_received demo_alarm ''armed_home'') = [AsyncWriteHaState]
   \<and> value_template demo_alarm ''bogus'' \<notin> set recognized_states
   \<and> state_field (message_received demo_alarm ''bogus'') = None
   \<and> effects (message_received demo_alarm ''bogus'') =
       [LogWarning ''Received unexpected payload: bogus'']"
proof -
  have yes: "value_template demo_alarm ''armed_home'' \<in> set recognized_states"
    by (simp add: demo_alarm_fields armed_home_recognized)
  have no: "value_template demo_alarm ''bogus'' \<notin> set recognized_states"
    by (simp add: demo_alarm_fields bogus_unrecognized)
  from yes message_received_sets_recognized_state [of demo_alarm "''armed_home''"]
  have 1: "message_received demo_alarm ''armed_home'' =
      demo_alarm\<lparr>state_field := Some (value_template demo_alarm ''armed_home''),
                 effects := effects demo_alarm @ [AsyncWriteHaState]\<rparr>"
    by blast
  from no message_received_sets_recognized_state [of demo_alarm "''bogus''"]
  have 2: "message_received demo_alarm ''bogus'' =
      demo_alarm\<lparr>effects := effects demo_alarm @
        [LogWarning (''Received unexpected payload: '' @ ''bogus'')]\<rparr>"
    by blast
  show ?thesis
    using yes no by (simp add: 1 2 demo_alarm_fields)
qed

subsection \<open>Code validation\<close>

lemma validate_code_truthy:
  "truthy (fst (validate_code self code state)) = code_accepted (config self) code"
  by (cases code; cases "CONF_CODE (config self)")
     (auto simp: validate_code_def code_accepted_def py_or_def py_and_def Let_def)

lemma validate_code_entity:
  "snd (validate_code self code state) =
     (if code_accepted (config self) code then self
      else self\<lparr>effects := effects self @
             [LogWarning (''Wrong code entered for '' @ state)]\<rparr>)"
proof -
  have "snd (validate_code self code state) =
     (if truthy (fst (validate_code self code state)) then self
      else self\<lparr>effects := effects self @
             [LogWarning (''Wrong code entered for '' @ state)]\<rparr>)"
    by (simp add: validate_code_def Let_def)
  then show ?thesis by (simp only: validate_code_truthy)
qed

lemma publish_effects:
  "publish self code action =
     self\<lparr>effects := effects self @
       [AsyncPublish (CONF_COMMAND_TOPIC (config self))
          (command_template self (Variables action code))
          (CONF_QOS (config self)) (CONF_RETAIN (config self))
          (CONF_ENCODING (config self))]\<rparr>"
  by (simp add: publish_def Let_def)

lemma gate_eq:
  "(case validate_code self code state of
      (check, self') \<Rightarrow> if \<not> truthy check then self' else publish self' code action) =
   (if code_accepted (config self) code then publish self code action
    else self\<lparr>effects := effects self @
           [LogWarning (''Wrong code entered for '' @ state)]\<rparr>)"
  using validate_code_truthy [of self code state] validate_code_entity [of self code state]
  by (cases "validate_code self code state") (simp split: if_splits)

text \<open>Each handler, with the flag it reads and the name it passes to the validation.\<close>

lemma async_alarm_disarm_eq:
  "async_alarm_disarm self code =
     (if CONF_CODE_DISARM_REQUIRED (config self) \<and> \<not> code_accepted (config self) code
      then self\<lparr>effects := effects self @ [LogWarning ''Wrong code entered for disarming'']\<rparr>
      else publish self code (CONF_PAYLOAD_DISARM (config self)))"
  unfolding async_alarm_disarm_def Let_def gate_eq by simp

lemma async_alarm_arm_home_eq:
  "async_alarm_arm_home self code =
     (if CONF_CODE_ARM_REQUIRED (config self) \<and> \<not> code_accepted (config self) code
      then self\<lparr>effects := effects self @ [LogWarning ''Wrong code entered for arming home'']\<rparr>
      else publish self code (CONF_PAYLOAD_ARM_HOME (config self)))"
  unfolding async_alarm_arm_home_def Let_def gate_eq by simp

lemma async_alarm_arm_away_eq:
  "async_alarm_arm_away self code =
     (if CONF_CODE_ARM_REQUIRED (config self) \<and> \<not> code_accepted (config self) code
      then self\<lparr>effects := effects self @ [LogWarning ''Wrong code entered for arming away'']\<rparr>
      else publish self code (CONF_PAYLOAD_ARM_AWAY (config self)))"
  unfolding async_alarm_arm_away_def Let_def gate_eq by simp

lemma async_alarm_arm_night_eq:
  "async_alarm_arm_night self code =
     (if CONF_CODE_ARM_REQUIRED (config self) \<and> \<not> code_accepted (config self) code
      then self\<lparr>effects := effects self @ [LogWarning ''Wrong code entered for arming night'']\<rparr>
      else publish self code (CONF_PAYLOAD_ARM_NIGHT (config self)))"
  unfolding async_alarm_arm_night_def Let_def gate_eq by simp

lemma async_alarm_arm_vacation_eq:
  "async_alarm_arm_vacation self code =
     (if CONF_CODE_ARM_REQUIRED (config self) \<and> \<not> code_accepted (config self) code
      then self\<lparr>effects := effects self @
             [LogWarning ''Wrong code entered for arming vacation'']\<rparr>
      else publish self code (CONF_PAYLOAD_ARM_VACATION (config self)))"
  unfolding async_alarm_arm_vacation_def Let_def gate_eq by simp

lemma async_alarm_arm_custom_bypass_eq:
  "async_alarm_arm_custom_bypass self code =
     (if CONF_CODE_ARM_REQUIRED (config self) \<and> \<not> code_accepted (config self) code
      then self\<lparr>effects := effects self @
             [LogWarning ''Wrong code entered for arming custom bypass'']\<rparr>
      else publish self code (CONF_PAYLOAD_ARM_CUSTOM_BYPASS (config self)))"
  unfolding async_alarm_arm_custom_bypass_def Let_def gate_eq by simp

lemma async_alarm_trigger_eq:
  "async_alarm_trigger self code =
     (if CONF_CODE_TRIGGER_REQUIRED (config self) \<and> \<not> code_accepted (config self) code
      then self\<lparr>effects := effects self @ [LogWarning ''Wrong code entered for triggering'']\<rparr>
      else publish self code (CONF_PAYLOAD_TRIGGER (config self)))"
  unfolding async_alarm_trigger_def Let_def gate_eq by simp

lemmas async_alarm_eqs =
  async_alarm_disarm_eq async_alarm_arm_home_eq async_alarm_arm_away_eq
  async_alarm_arm_night_eq async_alarm_arm_vacation_eq async_alarm_arm_custom_bypass_eq
  async_alarm_trigger_eq

lemma demo_code_accepted:
  "code_accepted demo_config (Some ''1234'')"
  "\<not> code_accepted demo_config (Some ''0000'')"
  "\<not> code_accepted demo_config None"
  by (simp_all add: code_accepted_def demo_config_def REMOTE_CODE_def REMOTE_CODE_TEXT_def)

text \<open>
  C1. For each of the seven actions, when its code-required flag is set: if the code is
  accepted by the policy (no code configured, or the supplied code equal to the
  configured one, or a sentinel configured and a non-empty code supplied) the handler
  publishes the command and does nothing else; otherwise it logs the warning and does
  nothing else, so nothing is published. The handlers are total: no exception reaches
  the caller. The last conjunct says what publishing is: one call of
  \<^verbatim>\<open>async_publish\<close> with the rendered payload.
\<close>

theorem code_required_publishes_iff_accepted:
  "(CONF_CODE_DISARM_REQUIRED (config self) \<longrightarrow>
      async_alarm_disarm self code =
        (if code_accepted (config self) code
         then publish self code (CONF_PAYLOAD_DISARM (config self))
         else self\<lparr>effects := effects self @
                [LogWarning ''Wrong code entered for disarming'']\<rparr>))
   \<and> (CONF_CODE_ARM_REQUIRED (config self) \<longrightarrow>
      async_alarm_arm_home self code =
        (if code_accepted (config self) code
         then publish self code (CONF_PAYLOAD_ARM_HOME (config self))
         else self\<lparr>effects := effects self @
                [LogWarning ''Wrong code entered for arming home'']\<rparr>))
   \<and> (CONF_CODE_ARM_REQUIRED (config self) \<longrightarrow>
      async_alarm_arm_away self code =
        (if code_accepted (config self) code
         then publish self code (CONF_PAYLOAD_ARM_AWAY (config self))
         else self\<lparr>effects := effects self @
                [LogWarning ''Wrong code entered for arming away'']\<rparr>))
   \<and> (CONF_CODE_ARM_REQUIRED (config self) \<longrightarrow>
      async_alarm_arm_night self code =
        (if code_accepted (config self) code
         then publish self code (CONF_PAYLOAD_ARM_NIGHT (config self))
         else self\<lparr>effects := effects self @
                [LogWarning ''Wrong code entered for arming night'']\<rparr>))
   \<and> (CONF_CODE_ARM_REQUIRED (config self) \<longrightarrow>
      async_alarm_arm_vacation self code =
        (if code_accepted (config self) code
         then publish self code (CONF_PAYLOAD_ARM_VACATION (config self))
         else self\<lparr>effects := effects self @
                [LogWarning ''Wrong code entered for arming vacation'']\<rparr>))
   \<and> (CONF_CODE_ARM_REQUIRED (config self) \<longrightarrow>
      async_alarm_arm_custom_bypass self code =
        (if code_accepted (config self) code
         then publish self code (CONF_PAYLOAD_ARM_CUSTOM_BYPASS (config self))
         else self\<lparr>effects := effects self @
                [LogWarning ''Wrong code entered for arming custom bypass'']\<rparr>))
   \<and> (CONF_CODE_TRIGGER_REQUIRED (config self) \<longrightarrow>
      async_alarm_trigger self code =
        (if code_accepted (config self) code
         then publish self code (CONF_PAYLOAD_TRIGGER (config self))
         else self\<lparr>effects := effects self @
                [LogWarning ''Wrong code entered for triggering'']\<rparr>))
   \<and> publish self code action =
        self\<lparr>effects := effects self @
          [AsyncPublish (CONF_COMMAND_TOPIC (config self))
             (command_template self (Variables action code))
             (CONF_QOS (config self)) (CONF_RETAIN (config self))
             (CONF_ENCODING (config self))]\<rparr>"
  by (simp add: async_alarm_eqs publish_effects)

theorem code_required_publishes_iff_accepted_witness:
  "CONF_CODE_DISARM_REQUIRED (config demo_alarm)
   \<and> CONF_CODE_ARM_REQUIRED (config demo_alarm)
   \<and> CONF_CODE_TRIGGER_REQUIRED (config demo_alarm)
   \<and> effects (async_alarm_disarm demo_alarm (Some ''0000'')) =
       [LogWarning ''Wrong code entered for disarming'']
   \<and> effects (async_alarm_arm_away demo_alarm (Some ''1234'')) =
       [AsyncPublish ''alarm/command'' ''ARM_AWAY'' 0 False ''utf-8'']
   \<and> effects (async_alarm_trigger demo_alarm None) =
       [LogWarning ''Wrong code entered for triggering'']"
proof -
  have flags: "CONF_CODE_DISARM_REQUIRED (config demo_alarm)"
    "CONF_CODE_ARM_REQUIRED (config demo_alarm)"
    "CONF_CODE_TRIGGER_REQUIRED (config demo_alarm)"
    by (simp_all add: demo_alarm_fields demo_config_def)
  have pub: "publish demo_alarm (Some ''1234'') ''ARM_AWAY'' =
    demo_alarm\<lparr>effects := [AsyncPublish ''alarm/command'' ''ARM_AWAY'' 0 False ''utf-8'']\<rparr>"
    using code_required_publishes_iff_accepted [of demo_alarm "Some ''1234''" "''ARM_AWAY''"]
    by (simp add: demo_alarm_fields demo_config_def)
  from flags code_required_publishes_iff_accepted [of demo_alarm "Some ''0000''"]
  have 1: "effects (async_alarm_disarm demo_alarm (Some ''0000'')) =
      [LogWarning ''Wrong code entered for disarming'']"
    by (simp add: demo_alarm_fields demo_code_accepted)
  from flags code_required_publishes_iff_accepted [of demo_alarm "Some ''1234''"]
  have "async_alarm_arm_away demo_alarm (Some ''1234'') =
      publish demo_alarm (Some ''1234'') (CONF_PAYLOAD_ARM_AWAY demo_config)"
    by (simp add: demo_alarm_fields demo_code_accepted)
  then have 2: "effects (async_alarm_arm_away demo_alarm (Some ''1234'')) =
      [AsyncPublish ''alarm/command'' ''ARM_AWAY'' 0 False ''utf-8'']"
    using pub by (simp add: demo_config_def)
  from flags code_required_publishes_iff_accepted [of demo_alarm None]
  have 3: "effects (async_alarm_trigger demo_alarm None) =
      [LogWarning ''Wrong code entered for triggering'']"
    by (simp add: demo_alarm_fields demo_code_accepted)
  show ?thesis using flags 1 2 3 by simp
qed

subsection \<open>The three code-required flags\<close>

lemma warning_is_not_publish:
  "self\<lparr>effects := effects self @ [LogWarning w]\<rparr> \<noteq> publish self code action"
proof
  assume "self\<lparr>effects := effects self @ [LogWarning w]\<rparr> = publish self code action"
  then have "effects (self\<lparr>effects := effects self @ [LogWarning w]\<rparr>) =
      effects (publish self code action)"
    by (rule arg_cong)
  then show False by (simp add: publish_effects)
qed

text \<open>
  C3, as stated, fails: arm-home and arm-away read the same flag
  \<^verbatim>\<open>CONF_CODE_ARM_REQUIRED\<close>. There is no entity, whatever its configuration, and no
  code for which arm-home is refused for the code while arm-away publishes with it.
\<close>

theorem arm_home_and_arm_away_not_independent:
  "\<not> (\<exists>self code.
        async_alarm_arm_home self code =
          self\<lparr>effects := effects self @
            [LogWarning ''Wrong code entered for arming home'']\<rparr>
        \<and> async_alarm_arm_away self code =
          publish self code (CONF_PAYLOAD_ARM_AWAY (config self)))"
proof
  assume "\<exists>self code.
        async_alarm_arm_home self code =
          self\<lparr>effects := effects self @
            [LogWarning ''Wrong code entered for arming home'']\<rparr>
        \<and> async_alarm_arm_away self code =
          publish self code (CONF_PAYLOAD_ARM_AWAY (config self))"
  then obtain self code where
    home: "async_alarm_arm_home self code =
      self\<lparr>effects := effects self @ [LogWarning ''Wrong code entered for arming home'']\<rparr>"
    and away: "async_alarm_arm_away self code =
      publish self code (CONF_PAYLOAD_ARM_AWAY (config self))"
    by blast
  have refused: "CONF_CODE_ARM_REQUIRED (config self) \<and> \<not> code_accepted (config self) code"
  proof (rule ccontr)
    assume "\<not> (CONF_CODE_ARM_REQUIRED (config self) \<and> \<not> code_accepted (config self) code)"
    then have "async_alarm_arm_home self code =
        publish self code (CONF_PAYLOAD_ARM_HOME (config self))"
      unfolding async_alarm_arm_home_eq by (rule if_not_P)
    with home show False
      using warning_is_not_publish by metis
  qed
  then have "async_alarm_arm_away self code =
      self\<lparr>effects := effects self @ [LogWarning ''Wrong code entered for arming away'']\<rparr>"
    unfolding async_alarm_arm_away_eq by (rule if_P)
  with away show False
    using warning_is_not_publish by metis
qed

text \<open>
  C3, amended. The code requirement is configured by three flags, not seven: disarm is
  gated by \<^verbatim>\<open>code_disarm_required\<close>, trigger by \<^verbatim>\<open>code_trigger_required\<close>,
  and the five arm actions by the one flag \<^verbatim>\<open>code_arm_required\<close>. A handler
  refuses (logs the warning, publishes nothing) exactly when its flag is set and the
  code is not accepted, and publishes otherwise. The three flags are independent fields
  of the configuration: any three values can be set together.
\<close>

theorem code_required_three_flags:
  "async_alarm_disarm self code =
     (if CONF_CODE_DISARM_REQUIRED (config self) \<and> \<not> code_accepted (config self) code
      then self\<lparr>effects := effects self @ [LogWarning ''Wrong code entered for disarming'']\<rparr>
      else publish self code (CONF_PAYLOAD_DISARM (config self)))
   \<and> async_alarm_arm_home self code =
     (if CONF_CODE_ARM_REQUIRED (config self) \<and> \<not> code_accepted (config self) code
      then self\<lparr>effects := effects self @ [LogWarning ''Wrong code entered for arming home'']\<rparr>
      else publish self code (CONF_PAYLOAD_ARM_HOME (config self)))
   \<and> async_alarm_arm_away self code =
     (if CONF_CODE_ARM_REQUIRED (config self) \<and> \<not> code_accepted (config self) code
      then self\<lparr>effects := effects self @ [LogWarning ''Wrong code entered for arming away'']\<rparr>
      else publish self code (CONF_PAYLOAD_ARM_AWAY (config self)))
   \<and> async_alarm_arm_night self code =
     (if CONF_CODE_ARM_REQUIRED (config self) \<and> \<not> code_accepted (config self) code
      then self\<lparr>effects := effects self @ [LogWarning ''Wrong code entered for arming night'']\<rparr>
      else publish self code (CONF_PAYLOAD_ARM_NIGHT (config self)))
   \<and> async_alarm_arm_vacation self code =
     (if CONF_CODE_ARM_REQUIRED (config self) \<and> \<not> code_accepted (config self) code
      then self\<lparr>effects := effects self @
             [LogWarning ''Wrong code entered for arming vacation'']\<rparr>
      else publish self code (CONF_PAYLOAD_ARM_VACATION (config self)))
   \<and> async_alarm_arm_custom_bypass self code =
     (if CONF_CODE_ARM_REQUIRED (config self) \<and> \<not> code_accepted (config self) code
      then self\<lparr>effects := effects self @
             [LogWarning ''Wrong code entered for arming custom bypass'']\<rparr>
      else publish self code (CONF_PAYLOAD_ARM_CUSTOM_BYPASS (config self)))
   \<and> async_alarm_trigger self code =
     (if CONF_CODE_TRIGGER_REQUIRED (config self) \<and> \<not> code_accepted (config self) code
      then self\<lparr>effects := effects self @ [LogWarning ''Wrong code entered for triggering'']\<rparr>
      else publish self code (CONF_PAYLOAD_TRIGGER (config self)))
   \<and> CONF_CODE_DISARM_REQUIRED
        (cfg\<lparr>CONF_CODE_ARM_REQUIRED := a, CONF_CODE_DISARM_REQUIRED := d,
             CONF_CODE_TRIGGER_REQUIRED := t\<rparr>) = d
   \<and> CONF_CODE_ARM_REQUIRED
        (cfg\<lparr>CONF_CODE_ARM_REQUIRED := a, CONF_CODE_DISARM_REQUIRED := d,
             CONF_CODE_TRIGGER_REQUIRED := t\<rparr>) = a
   \<and> CONF_CODE_TRIGGER_REQUIRED
        (cfg\<lparr>CONF_CODE_ARM_REQUIRED := a, CONF_CODE_DISARM_REQUIRED := d,
             CONF_CODE_TRIGGER_REQUIRED := t\<rparr>) = t"
  by (simp add: async_alarm_eqs)

text \<open>
  An instance: with the arm flag cleared and the other two set, a wrong code is refused
  for disarm and trigger, and arm-home and arm-night publish with it.
\<close>

theorem code_required_three_flags_witness:
  "effects (async_alarm_disarm
      (demo_alarm\<lparr>config := demo_config\<lparr>CONF_CODE_ARM_REQUIRED := False\<rparr>\<rparr>)
      (Some ''0000'')) = [LogWarning ''Wrong code entered for disarming'']
   \<and> effects (async_alarm_trigger
      (demo_alarm\<lparr>config := demo_config\<lparr>CONF_CODE_ARM_REQUIRED := False\<rparr>\<rparr>)
      (Some ''0000'')) = [LogWarning ''Wrong code entered for triggering'']
   \<and> effects (async_alarm_arm_home
      (demo_alarm\<lparr>config := demo_config\<lparr>CONF_CODE_ARM_REQUIRED := False\<rparr>\<rparr>)
      (Some ''0000'')) = [AsyncPublish ''alarm/command'' ''ARM_HOME'' 0 False ''utf-8'']
   \<and> effects (async_alarm_arm_night
      (demo_alarm\<lparr>config := demo_config\<lparr>CONF_CODE_ARM_REQUIRED := False\<rparr>\<rparr>)
      (Some ''0000'')) = [AsyncPublish ''alarm/command'' ''ARM_NIGHT'' 0 False ''utf-8'']"
proof -
  have no: "\<not> code_accepted (demo_config\<lparr>CONF_CODE_ARM_REQUIRED := False\<rparr>) (Some ''0000'')"
    by (simp add: code_accepted_def demo_config_def REMOTE_CODE_def REMOTE_CODE_TEXT_def)
  show ?thesis
    using no code_required_three_flags
      [of "demo_alarm\<lparr>config := demo_config\<lparr>CONF_CODE_ARM_REQUIRED := False\<rparr>\<rparr>"
          "Some ''0000''"]
    by (simp add: publish_effects demo_alarm_fields) (simp add: demo_config_def)
qed

subsection \<open>The state field\<close>

text \<open>
  C5. None of the seven action handlers changes the state field, whatever the flag and
  whatever the outcome of the validation. (The message handler does change it: C2.)
\<close>

theorem actions_leave_state_unchanged:
  "state_field (async_alarm_disarm self code) = state_field self
   \<and> state_field (async_alarm_arm_home self code) = state_field self
   \<and> state_field (async_alarm_arm_away self code) = state_field self
   \<and> state_field (async_alarm_arm_night self code) = state_field self
   \<and> state_field (async_alarm_arm_vacation self code) = state_field self
   \<and> state_field (async_alarm_arm_custom_bypass self code) = state_field self
   \<and> state_field (async_alarm_trigger self code) = state_field self"
  by (simp add: async_alarm_eqs publish_effects)

text \<open>The invariant: the state field is unset or a recognized state string.\<close>

lemma message_received_state:
  "state_field (message_received self msg_payload) = state_field self
   \<or> state_field (message_received self msg_payload) \<in> Some ` set recognized_states"
proof (cases "value_template self msg_payload \<in> set recognized_states")
  case True
  then show ?thesis by (simp add: message_received_recognized)
next
  case False
  then show ?thesis by (simp add: message_received_unrecognized)
qed

lemma step_state:
  "state_field (step self ev) = state_field self
   \<or> state_field (step self ev) \<in> Some ` set recognized_states"
proof (cases ev)
  case (MessageReceived msg_payload)
  then show ?thesis using message_received_state [of self msg_payload] by simp
qed (simp_all add: async_alarm_eqs publish_effects)

lemma run_state:
  assumes "state_field self = None \<or> state_field self \<in> Some ` set recognized_states"
  shows "state_field (run self evs) = None
         \<or> state_field (run self evs) \<in> Some ` set recognized_states"
  using assms unfolding run_def
proof (induction evs arbitrary: self)
  case Nil
  then show ?case by simp
next
  case (Cons ev evs)
  have "state_field (step self ev) = None
        \<or> state_field (step self ev) \<in> Some ` set recognized_states"
    using Cons.prems step_state [of self ev] by auto
  then show ?case using Cons.IH [of "step self ev"] by simp
qed

text \<open>
  C6. After any sequence of inbound messages and action calls on a freshly initialised
  entity, the state field is unset or one of the ten recognized state strings.
\<close>

theorem reachable_state_unset_or_recognized:
  "state_field (run (MqttAlarm_init cfg vt ct) evs) = None
   \<or> state_field (run (MqttAlarm_init cfg vt ct) evs) \<in> Some ` set recognized_states"
  by (rule run_state) (simp add: MqttAlarm_init_def)

text \<open>Both cases occur: the state of a run can stay unset or become a state string.\<close>

lemma run_examples:
  "state_field (run demo_alarm [AlarmArmAway (Some ''1234''), MessageReceived ''bogus'']) = None"
  "state_field (run demo_alarm [AlarmArmAway (Some ''1234''), MessageReceived ''armed_home''])
     = Some ''armed_home''"
proof -
  have 1: "message_received self ''bogus'' =
      self\<lparr>effects := effects self @
        [LogWarning (''Received unexpected payload: '' @ ''bogus'')]\<rparr>"
    if "value_template self = (\<lambda>payload. payload)" for self
    using that bogus_unrecognized by (simp add: message_received_unrecognized)
  have 2: "message_received self ''armed_home'' =
      self\<lparr>state_field := Some ''armed_home'',
           effects := effects self @ [AsyncWriteHaState]\<rparr>"
    if "value_template self = (\<lambda>payload. payload)" for self
    using that armed_home_recognized by (simp add: message_received_recognized)
  show "state_field (run demo_alarm
      [AlarmArmAway (Some ''1234''), MessageReceived ''bogus'']) = None"
    by (simp add: run_def async_alarm_eqs publish_effects 1 demo_alarm_fields)
  show "state_field (run demo_alarm
      [AlarmArmAway (Some ''1234''), MessageReceived ''armed_home'']) = Some ''armed_home''"
    by (simp add: run_def async_alarm_eqs publish_effects 2 demo_alarm_fields)
qed

subsection \<open>Code format\<close>

lemma takeWhile_all: "list_all P xs \<Longrightarrow> takeWhile P xs = xs"
  by (induction xs) simp_all

lemma dropWhile_all: "list_all P xs \<Longrightarrow> dropWhile P xs = []"
  by (induction xs) simp_all

lemma list_all_takeWhile: "list_all P (takeWhile P xs)"
  by (induction xs) simp_all

text \<open>
  The pattern accepts exactly the strings of one or more decimal digits, each also with
  one newline after it (the behaviour of \<^verbatim>\<open>$\<close>), whatever the class of digits.
\<close>

lemma re_search_digits_iff:
  "re_search_digits decimal s \<longleftrightarrow>
     (\<exists>ds. ds \<noteq> [] \<and> list_all decimal ds
        \<and> (code_points s = Some ds \<or> code_points s = Some (ds @ [10])))"
proof
  assume m: "re_search_digits decimal s"
  then obtain cs where cs: "code_points s = Some cs"
    by (auto simp: re_search_digits_def split: option.splits)
  let ?ds = "takeWhile decimal cs"
  from m cs have ne: "?ds \<noteq> []"
    and rest: "dropWhile decimal cs = [] \<or> dropWhile decimal cs = [10]"
    by (simp_all add: re_search_digits_def Let_def)
  have split: "cs = ?ds @ dropWhile decimal cs" by simp
  from rest have "cs = ?ds \<or> cs = ?ds @ [10]"
  proof
    assume "dropWhile decimal cs = []"
    with split show ?thesis by simp
  next
    assume "dropWhile decimal cs = [10]"
    with split show ?thesis by metis
  qed
  with cs ne list_all_takeWhile [of decimal cs]
  show "\<exists>ds. ds \<noteq> [] \<and> list_all decimal ds
        \<and> (code_points s = Some ds \<or> code_points s = Some (ds @ [10]))"
    by metis
next
  assume "\<exists>ds. ds \<noteq> [] \<and> list_all decimal ds
        \<and> (code_points s = Some ds \<or> code_points s = Some (ds @ [10]))"
  then obtain ds where ds: "ds \<noteq> []" "list_all decimal ds"
    and s: "code_points s = Some ds \<or> code_points s = Some (ds @ [10])" by blast
  from s show "re_search_digits decimal s"
  proof
    assume "code_points s = Some ds"
    then show ?thesis
      using ds by (simp add: re_search_digits_def takeWhile_all dropWhile_all)
  next
    assume nl: "code_points s = Some (ds @ [10])"
    show ?thesis
    proof (cases "decimal 10")
      case True
      then have "list_all decimal (ds @ [10])" using ds by simp
      then show ?thesis
        using nl ds
        by (simp add: re_search_digits_def takeWhile_all dropWhile_all del: list_all_append)
    next
      case False
      have "takeWhile decimal (ds @ [10]) = ds"
        using ds False by (simp add: takeWhile_append2 list_all_iff)
      moreover have "dropWhile decimal (ds @ [10]) = [10]"
        using ds False by (simp add: dropWhile_append2 list_all_iff)
      ultimately show ?thesis
        using nl ds by (simp add: re_search_digits_def)
    qed
  qed
qed

lemma code_points_empty: "code_points [] = Some []"
  by (simp add: code_points_def)

lemma re_search_digits_empty: "\<not> re_search_digits decimal []"
  by (simp add: re_search_digits_def code_points_empty)

lemma code_points_REMOTE_CODE_TEXT:
  "code_points REMOTE_CODE_TEXT =
     Some [82, 69, 77, 79, 84, 69, 95, 67, 79, 68, 69, 95, 84, 69, 88, 84]"
  by (simp add: code_points_def REMOTE_CODE_TEXT_def)

lemma re_search_digits_REMOTE_CODE_TEXT:
  assumes "ascii_decimal decimal"
  shows "\<not> re_search_digits decimal REMOTE_CODE_TEXT"
proof -
  have "\<not> decimal 82"
    using assms by (simp add: ascii_decimal_def)
  then show ?thesis
    by (simp add: re_search_digits_def code_points_REMOTE_CODE_TEXT)
qed

lemma REMOTE_CODE_TEXT_neq: "REMOTE_CODE_TEXT \<noteq> REMOTE_CODE"
  by (simp add: REMOTE_CODE_def REMOTE_CODE_TEXT_def)

text \<open>The class of Unicode 13.0 is one of those that agree with ASCII below 128.\<close>

lemma list_ex_run_above:
  "list_all (\<lambda>zero. n \<le> zero) zs \<Longrightarrow> c < n \<Longrightarrow>
     \<not> list_ex (\<lambda>zero. zero \<le> c \<and> c < zero + 10) zs" for c n :: nat
  by (induction zs) auto

lemma ascii_decimal_unicode_13: "ascii_decimal unicode_13_decimal"
proof -
  have hd: "unicode_13_zeros = 48 # tl unicode_13_zeros"
    by (simp add: unicode_13_zeros_def)
  have tl: "list_all (\<lambda>zero. 128 \<le> zero) (tl unicode_13_zeros)"
    by (simp add: unicode_13_zeros_def)
  have "unicode_13_decimal c = (48 \<le> c \<and> c \<le> 57)" if "c < 128" for c
  proof -
    have "list_ex (\<lambda>zero. zero \<le> c \<and> c < zero + 10) unicode_13_zeros =
        ((48 \<le> c \<and> c < 48 + 10)
         \<or> list_ex (\<lambda>zero. zero \<le> c \<and> c < zero + 10) (tl unicode_13_zeros))"
      by (subst hd) simp
    moreover have "\<not> list_ex (\<lambda>zero. zero \<le> c \<and> c < zero + 10) (tl unicode_13_zeros)"
      using tl that by (rule list_ex_run_above)
    ultimately show ?thesis
      using that by (auto simp: unicode_13_decimal_def)
  qed
  then show ?thesis by (simp add: ascii_decimal_def)
qed

lemma demo_code_points:
  "code_points ''1234'' = Some [49, 50, 51, 52]"
  "code_points ''12a4'' = Some [49, 50, 97, 52]"
  "code_points arabic_indic_12 = Some [0x661, 0x662]"
  "code_points fullwidth_12 = Some [0xFF11, 0xFF12]"
  by (simp_all add: code_points_def arabic_indic_12_def fullwidth_12_def continuation_def)

lemma demo_decimal:
  "list_all unicode_13_decimal [49, 50, 51, 52]"
  "list_all unicode_13_decimal [0x661, 0x662]"
  "list_all unicode_13_decimal [0xFF11, 0xFF12]"
  "\<not> unicode_13_decimal 97"
  by (simp_all add: unicode_13_decimal_def unicode_13_zeros_def)

text \<open>
  C4. Whatever the interpreter's class of decimal digits: the code format is NUMBER when
  the configured code is the sentinel \<^verbatim>\<open>REMOTE_CODE\<close> or matches the digit-only
  pattern (one or more decimal digits, then the end of the string or one final newline),
  TEXT for every other non-empty configured code, and \<^verbatim>\<open>None\<close> when no code is
  configured. The "remote numeric" sentinel gives NUMBER and, the class agreeing with
  ASCII below 128 as every version's does, the "remote text" sentinel gives TEXT.
\<close>

theorem code_format_number_text_none:
  "(CONF_CODE (config self) = None \<longrightarrow> code_format decimal self = None)
   \<and> (\<forall>code. CONF_CODE (config self) = Some code
          \<and> (code = REMOTE_CODE
              \<or> (\<exists>ds. ds \<noteq> [] \<and> list_all decimal ds
                   \<and> (code_points code = Some ds \<or> code_points code = Some (ds @ [10]))))
        \<longrightarrow> code_format decimal self = Some NUMBER)
   \<and> (\<forall>code. CONF_CODE (config self) = Some code
          \<and> code \<noteq> [] \<and> code \<noteq> REMOTE_CODE
          \<and> \<not> (\<exists>ds. ds \<noteq> [] \<and> list_all decimal ds
                   \<and> (code_points code = Some ds \<or> code_points code = Some (ds @ [10])))
        \<longrightarrow> code_format decimal self = Some TEXT)
   \<and> code_format decimal (self\<lparr>config := (config self)\<lparr>CONF_CODE := Some REMOTE_CODE\<rparr>\<rparr>)
       = Some NUMBER
   \<and> (ascii_decimal decimal \<longrightarrow>
       code_format decimal
         (self\<lparr>config := (config self)\<lparr>CONF_CODE := Some REMOTE_CODE_TEXT\<rparr>\<rparr>) = Some TEXT)"
proof -
  have none: "CONF_CODE (config self) = None \<longrightarrow> code_format decimal self = None"
    by (simp add: code_format_def)
  have number: "\<forall>code. CONF_CODE (config self) = Some code
          \<and> (code = REMOTE_CODE
              \<or> (\<exists>ds. ds \<noteq> [] \<and> list_all decimal ds
                   \<and> (code_points code = Some ds \<or> code_points code = Some (ds @ [10]))))
        \<longrightarrow> code_format decimal self = Some NUMBER"
    unfolding re_search_digits_iff [symmetric] by (simp add: code_format_def)
  have other: "\<forall>code. CONF_CODE (config self) = Some code
          \<and> code \<noteq> [] \<and> code \<noteq> REMOTE_CODE
          \<and> \<not> (\<exists>ds. ds \<noteq> [] \<and> list_all decimal ds
                   \<and> (code_points code = Some ds \<or> code_points code = Some (ds @ [10])))
        \<longrightarrow> code_format decimal self = Some TEXT"
    unfolding re_search_digits_iff [symmetric] by (simp add: code_format_def)
  have remote: "code_format decimal
      (self\<lparr>config := (config self)\<lparr>CONF_CODE := Some REMOTE_CODE\<rparr>\<rparr>) = Some NUMBER"
    by (simp add: code_format_def)
  have remote_text: "ascii_decimal decimal \<longrightarrow>
       code_format decimal
         (self\<lparr>config := (config self)\<lparr>CONF_CODE := Some REMOTE_CODE_TEXT\<rparr>\<rparr>) = Some TEXT"
    by (simp add: code_format_def re_search_digits_REMOTE_CODE_TEXT REMOTE_CODE_TEXT_neq)
  from none number other remote remote_text show ?thesis by (intro conjI)
qed

text \<open>
  Instances, with the digits of Unicode 13.0: the codes 1234 and, beyond ASCII, the
  Arabic-Indic and the fullwidth digits one, two give NUMBER; the code 12a4 gives TEXT; no
  code gives \<^verbatim>\<open>None\<close>; the "remote text" sentinel gives TEXT.
\<close>

theorem code_format_number_text_none_witness:
  "code_format unicode_13_decimal demo_alarm = Some NUMBER
   \<and> code_format unicode_13_decimal
       (demo_alarm\<lparr>config := demo_config\<lparr>CONF_CODE := Some arabic_indic_12\<rparr>\<rparr>) = Some NUMBER
   \<and> code_format unicode_13_decimal
       (demo_alarm\<lparr>config := demo_config\<lparr>CONF_CODE := Some fullwidth_12\<rparr>\<rparr>) = Some NUMBER
   \<and> code_format unicode_13_decimal
       (demo_alarm\<lparr>config := demo_config\<lparr>CONF_CODE := Some ''12a4''\<rparr>\<rparr>) = Some TEXT
   \<and> code_format unicode_13_decimal
       (demo_alarm\<lparr>config := demo_config\<lparr>CONF_CODE := None\<rparr>\<rparr>) = None
   \<and> ascii_decimal unicode_13_decimal
   \<and> code_format unicode_13_decimal
       (demo_alarm\<lparr>config := demo_config\<lparr>CONF_CODE := Some REMOTE_CODE_TEXT\<rparr>\<rparr>) = Some TEXT"
proof -
  let ?d = unicode_13_decimal
  have digits: "\<exists>ds. ds \<noteq> [] \<and> list_all ?d ds
      \<and> (code_points ''1234'' = Some ds \<or> code_points ''1234'' = Some (ds @ [10]))"
    "\<exists>ds. ds \<noteq> [] \<and> list_all ?d ds
      \<and> (code_points arabic_indic_12 = Some ds \<or> code_points arabic_indic_12 = Some (ds @ [10]))"
    "\<exists>ds. ds \<noteq> [] \<and> list_all ?d ds
      \<and> (code_points fullwidth_12 = Some ds \<or> code_points fullwidth_12 = Some (ds @ [10]))"
    using demo_code_points demo_decimal by blast+
  have "\<not> re_search_digits ?d ''12a4''"
    using demo_decimal(4)
    by (simp add: re_search_digits_def demo_code_points unicode_13_decimal_def
        unicode_13_zeros_def)
  then have letters: "\<not> (\<exists>ds. ds \<noteq> [] \<and> list_all ?d ds
      \<and> (code_points ''12a4'' = Some ds \<or> code_points ''12a4'' = Some (ds @ [10])))"
    using re_search_digits_iff [of ?d "''12a4''"] by blast
  have neq: "''12a4'' \<noteq> []" "''12a4'' \<noteq> REMOTE_CODE"
    by (simp_all add: REMOTE_CODE_def)
  have 1: "code_format ?d demo_alarm = Some NUMBER"
    using digits(1) code_format_number_text_none [of demo_alarm ?d]
    by (simp add: demo_alarm_fields demo_config_def)
  have 2: "code_format ?d
      (demo_alarm\<lparr>config := demo_config\<lparr>CONF_CODE := Some arabic_indic_12\<rparr>\<rparr>) = Some NUMBER"
    using digits(2) code_format_number_text_none
      [of "demo_alarm\<lparr>config := demo_config\<lparr>CONF_CODE := Some arabic_indic_12\<rparr>\<rparr>" ?d]
    by simp
  have 3: "code_format ?d
      (demo_alarm\<lparr>config := demo_config\<lparr>CONF_CODE := Some fullwidth_12\<rparr>\<rparr>) = Some NUMBER"
    using digits(3) code_format_number_text_none
      [of "demo_alarm\<lparr>config := demo_config\<lparr>CONF_CODE := Some fullwidth_12\<rparr>\<rparr>" ?d]
    by simp
  have 4: "code_format ?d
      (demo_alarm\<lparr>config := demo_config\<lparr>CONF_CODE := Some ''12a4''\<rparr>\<rparr>) = Some TEXT"
    using letters neq code_format_number_text_none
      [of "demo_alarm\<lparr>config := demo_config\<lparr>CONF_CODE := Some ''12a4''\<rparr>\<rparr>" ?d]
    by simp
  have 5: "code_format ?d (demo_alarm\<lparr>config := demo_config\<lparr>CONF_CODE := None\<rparr>\<rparr>) = None"
    using code_format_number_text_none
      [of "demo_alarm\<lparr>config := demo_config\<lparr>CONF_CODE := None\<rparr>\<rparr>" ?d]
    by simp
  have 6: "code_format ?d
      (demo_alarm\<lparr>config := demo_config\<lparr>CONF_CODE := Some REMOTE_CODE_TEXT\<rparr>\<rparr>) = Some TEXT"
    using ascii_decimal_unicode_13 code_format_number_text_none [of demo_alarm ?d]
    by (simp add: demo_alarm_fields)
  from 1 2 3 4 5 ascii_decimal_unicode_13 6 show ?thesis by (intro conjI)
qed

text \<open>
  C10. A configured code that is the empty string gives TEXT, and the code format is
  \<^verbatim>\<open>None\<close> only when the configuration has no code at all; both whatever the
  interpreter's class of decimal digits.
\<close>

theorem code_format_empty_code_is_text:
  "(CONF_CODE (config self) = Some [] \<longrightarrow> code_format decimal self = Some TEXT)
   \<and> (code_format decimal self = None \<longleftrightarrow> CONF_CODE (config self) = None)"
  by (simp add: code_format_def re_search_digits_empty REMOTE_CODE_def
      split: option.split)

theorem code_format_empty_code_is_text_witness:
  "CONF_CODE (config (demo_alarm\<lparr>config := demo_config\<lparr>CONF_CODE := Some []\<rparr>\<rparr>)) = Some []
   \<and> code_format unicode_13_decimal
       (demo_alarm\<lparr>config := demo_config\<lparr>CONF_CODE := Some []\<rparr>\<rparr>) = Some TEXT"
proof -
  have e: "CONF_CODE (config (demo_alarm\<lparr>config := demo_config\<lparr>CONF_CODE := Some []\<rparr>\<rparr>))
      = Some []"
    by simp
  from e code_format_empty_code_is_text
    [of "demo_alarm\<lparr>config := demo_config\<lparr>CONF_CODE := Some []\<rparr>\<rparr>" unicode_13_decimal]
  show ?thesis by blast
qed

section \<open>Proofs for the Litter-Robot vacuum\<close>

subsection \<open>Availability\<close>

text \<open>
  C7. The entity is available exactly when the time elapsed since the robot was last
  seen is strictly less than 30 minutes (in microseconds: 30 * 60 * 1000000), and the
  robot's status has no part in it.
\<close>

theorem available_iff_seen_within_30_minutes:
  "available now self = (now - last_seen (robot self) < 30 * 60 * 1000000)
   \<and> available now (self\<lparr>robot := (robot self)\<lparr>status := s\<rparr>\<rparr>) = available now self"
  by (auto simp: available_def UNAVAILABLE_AFTER_def timedelta_minutes_def)

text \<open>
  At the boundary: a robot last seen exactly 30 minutes ago is unavailable, one
  microsecond less and it is available, whatever its status.
\<close>

theorem available_iff_seen_within_30_minutes_witness:
  "\<not> available (1000000000 + 1800000000) demo_cleaner
   \<and> available (1000000000 + 1799999999) demo_cleaner
   \<and> available (1000000000 + 1799999999)
       (demo_cleaner\<lparr>robot := (robot demo_cleaner)\<lparr>status := OFF\<rparr>\<rparr>)"
  using available_iff_seen_within_30_minutes [of "1000000000 + 1800000000" demo_cleaner OFF]
    available_iff_seen_within_30_minutes [of "1000000000 + 1799999999" demo_cleaner OFF]
  by (simp add: demo_cleaner_def)

subsection \<open>State\<close>

lemma map_of_unlisted:
  "x \<notin> fst ` set LITTER_BOX_STATUS_STATE_MAP \<Longrightarrow> map_of LITTER_BOX_STATUS_STATE_MAP x = None"
  by (simp add: map_of_eq_None_iff)

text \<open>
  C8. The state is a function of the robot's status alone, defined for every status:
  OFF gives "off", READY gives "docked", CLEAN_CYCLE gives "cleaning", and every status
  that is not a key of the mapping gives "error".
\<close>

theorem state_of_status:
  "(status (robot self) = OFF \<longrightarrow> LitterRobotCleaner_state self = ''off'')
   \<and> (status (robot self) = READY \<longrightarrow> LitterRobotCleaner_state self = ''docked'')
   \<and> (status (robot self) = CLEAN_CYCLE \<longrightarrow> LitterRobotCleaner_state self = ''cleaning'')
   \<and> (status (robot self) \<notin> fst ` set LITTER_BOX_STATUS_STATE_MAP \<longrightarrow>
        LitterRobotCleaner_state self = ''error'')
   \<and> (status (robot self) = status (robot other) \<longrightarrow>
        LitterRobotCleaner_state self = LitterRobotCleaner_state other)"
proof -
  have "status (robot self) \<notin> fst ` set LITTER_BOX_STATUS_STATE_MAP \<longrightarrow>
        LitterRobotCleaner_state self = ''error''"
    by (simp add: LitterRobotCleaner_state_def map_of_unlisted STATE_ERROR_def)
  moreover have "status (robot self) = OFF \<longrightarrow> LitterRobotCleaner_state self = ''off''"
    by (simp add: LitterRobotCleaner_state_def LITTER_BOX_STATUS_STATE_MAP_def STATE_OFF_def)
  moreover have "status (robot self) = READY \<longrightarrow> LitterRobotCleaner_state self = ''docked''"
    by (simp add: LitterRobotCleaner_state_def LITTER_BOX_STATUS_STATE_MAP_def STATE_DOCKED_def)
  moreover have "status (robot self) = CLEAN_CYCLE \<longrightarrow>
      LitterRobotCleaner_state self = ''cleaning''"
    by (simp add: LitterRobotCleaner_state_def LITTER_BOX_STATUS_STATE_MAP_def
        STATE_CLEANING_def)
  moreover have "status (robot self) = status (robot other) \<longrightarrow>
        LitterRobotCleaner_state self = LitterRobotCleaner_state other"
    by (simp add: LitterRobotCleaner_state_def)
  ultimately show ?thesis by blast
qed

theorem state_of_status_witness:
  "LitterRobotCleaner_state demo_cleaner = ''docked''
   \<and> LitterRobotCleaner_state (demo_cleaner\<lparr>robot := (robot demo_cleaner)\<lparr>status := OFF\<rparr>\<rparr>)
       = ''off''
   \<and> LitterRobotCleaner_state
       (demo_cleaner\<lparr>robot := (robot demo_cleaner)\<lparr>status := CLEAN_CYCLE\<rparr>\<rparr>) = ''cleaning''
   \<and> UNLISTED ''PAUSED'' \<notin> fst ` set LITTER_BOX_STATUS_STATE_MAP
   \<and> LitterRobotCleaner_state
       (demo_cleaner\<lparr>robot := (robot demo_cleaner)\<lparr>status := UNLISTED ''PAUSED''\<rparr>\<rparr>)
       = ''error''"
proof -
  have un: "UNLISTED ''PAUSED'' \<notin> fst ` set LITTER_BOX_STATUS_STATE_MAP"
    by (simp add: LITTER_BOX_STATUS_STATE_MAP_def)
  have 1: "LitterRobotCleaner_state demo_cleaner = ''docked''"
    using state_of_status [of demo_cleaner demo_cleaner] by (simp add: demo_cleaner_def)
  have 2: "LitterRobotCleaner_state
      (demo_cleaner\<lparr>robot := (robot demo_cleaner)\<lparr>status := OFF\<rparr>\<rparr>) = ''off''"
    using state_of_status
      [of "demo_cleaner\<lparr>robot := (robot demo_cleaner)\<lparr>status := OFF\<rparr>\<rparr>" demo_cleaner]
    by simp
  have 3: "LitterRobotCleaner_state
      (demo_cleaner\<lparr>robot := (robot demo_cleaner)\<lparr>status := CLEAN_CYCLE\<rparr>\<rparr>) = ''cleaning''"
    using state_of_status
      [of "demo_cleaner\<lparr>robot := (robot demo_cleaner)\<lparr>status := CLEAN_CYCLE\<rparr>\<rparr>" demo_cleaner]
    by simp
  have 4: "LitterRobotCleaner_state
      (demo_cleaner\<lparr>robot := (robot demo_cleaner)\<lparr>status := UNLISTED ''PAUSED''\<rparr>\<rparr>)
      = ''error''"
    using un state_of_status
      [of "demo_cleaner\<lparr>robot := (robot demo_cleaner)\<lparr>status := UNLISTED ''PAUSED''\<rparr>\<rparr>"
          demo_cleaner]
    by simp
  show ?thesis using un 1 2 3 4 by simp
qed

subsection \<open>Deprecated services\<close>

text \<open>
  C9, as stated, fails for set-sleep-mode: an invocation logs no warning at all.
\<close>

theorem set_sleep_mode_logs_no_warning:
  "\<not> list_ex is_warning (calls (snd (async_set_sleep_mode demo_cleaner True None)))"
  by (simp add: async_set_sleep_mode_def perform_action_and_refresh_def demo_cleaner_def
      Let_def)

text \<open>
  C9, amended. Of the three registered services, two are deprecated aliases: every
  invocation of reset-waste-drawer and of set-wait-time logs its deprecation warning
  first and then carries out the legacy behaviour, the call of the robot. If that call
  returns, the update (or the refresh) follows and the handler returns; if it raises,
  the exception propagates to the caller and nothing follows. The third service,
  set-sleep-mode, logs nothing: it makes its call of the robot, with the same two
  outcomes. Nothing else of the entity changes.
\<close>

theorem deprecated_services_warn_then_execute:
  "snd (async_reset_waste_drawer self) =
     self\<lparr>calls := calls self @
       [LoggerWarning
          (''The 'litterrobot.reset_waste_drawer' service is deprecated and '' @
           ''replaced by a dedicated reset waste drawer button entity; Please '' @
           ''use that entity to reset the waste drawer instead''),
        RobotCall ResetWasteDrawer] @
       (if raises (robot self) ResetWasteDrawer = None
        then [AsyncSetUpdatedData True] else [])\<rparr>
   \<and> fst (async_reset_waste_drawer self) =
     (case raises (robot self) ResetWasteDrawer of None \<Rightarrow> Inr () | Some e \<Rightarrow> Inl e)
   \<and> snd (async_set_wait_time self minutes) =
     self\<lparr>calls := calls self @
       [LoggerWarning
          (''The 'litterrobot.set_wait_time' service is deprecated and '' @
           ''replaced by a dedicated set wait time select entity; Please '' @
           ''use that entity to set the wait time instead''),
        RobotCall (SetWaitTime minutes)] @
       (if raises (robot self) (SetWaitTime minutes) = None then [Refresh] else [])\<rparr>
   \<and> fst (async_set_wait_time self minutes) =
     (case raises (robot self) (SetWaitTime minutes) of None \<Rightarrow> Inr () | Some e \<Rightarrow> Inl e)
   \<and> snd (async_set_sleep_mode self enabled start_time) =
     self\<lparr>calls := calls self @
       [RobotCall (SetSleepMode enabled (parse_time_at_default_timezone self start_time))] @
       (if raises (robot self)
             (SetSleepMode enabled (parse_time_at_default_timezone self start_time)) = None
        then [Refresh] else [])\<rparr>
   \<and> fst (async_set_sleep_mode self enabled start_time) =
     (case raises (robot self)
             (SetSleepMode enabled (parse_time_at_default_timezone self start_time)) of
        None \<Rightarrow> Inr () | Some e \<Rightarrow> Inl e)"
  by (simp add: async_reset_waste_drawer_def async_set_wait_time_def
      async_set_sleep_mode_def perform_action_and_refresh_def Let_def
      split: option.split)

text \<open>
  Instances: with a robot whose calls succeed, and with one whose waste drawer reset
  and wait time setting raise.
\<close>

theorem deprecated_services_warn_then_execute_witness:
  "map is_warning (calls (snd (async_reset_waste_drawer demo_cleaner)))
     = [True, False, False]
   \<and> fst (async_reset_waste_drawer demo_cleaner) = Inr ()
   \<and> map is_warning (calls (snd (async_set_wait_time demo_cleaner 7))) = [True, False, False]
   \<and> calls (snd (async_set_sleep_mode demo_cleaner True None)) =
       [RobotCall (SetSleepMode True None), Refresh]
   \<and> map is_warning (calls (snd (async_reset_waste_drawer failing_cleaner))) = [True, False]
   \<and> fst (async_reset_waste_drawer failing_cleaner) = Inl (Exn ''LitterRobotException'')
   \<and> map is_warning (calls (snd (async_set_wait_time failing_cleaner 7))) = [True, False]
   \<and> fst (async_set_wait_time failing_cleaner 7) = Inl (Exn ''LitterRobotException'')"
  using deprecated_services_warn_then_execute [of demo_cleaner 7 True None]
    deprecated_services_warn_then_execute [of failing_cleaner 7 True None]
  by (simp add: demo_cleaner_def failing_cleaner_def)

end
